theory Spec2Isabelle
  imports Main "HOL-Library.Sublist"
begin

section \<open>Python strings\<close>

text \<open>
  A Python \<^verbatim>\<open>str\<close> is modelled as a \<^typ>\<open>string\<close>: text whose characters have the code
  points 0 to 255 (Latin-1), a character being its code point. The functions below are
  the \<^verbatim>\<open>str\<close> methods the forms call, as Python defines them on that range.
\<close>

text \<open>\<^verbatim>\<open>s.replace(c, '')\<close> for a one-character \<^verbatim>\<open>c\<close>: every occurrence is dropped.\<close>

definition replace_char :: "char \<Rightarrow> string \<Rightarrow> string" where
  "replace_char c s = filter (\<lambda>x. x \<noteq> c) s"

text \<open>\<^verbatim>\<open>s.startswith(p)\<close>.\<close>

definition startswith :: "string \<Rightarrow> string \<Rightarrow> bool" where
  "startswith s p = (take (length p) s = p)"

text \<open>\<^verbatim>\<open>str.isdigit\<close> on one character (the digits \<open>0\<close> to \<open>9\<close> and the superscripts
  two, three and one at \<^verbatim>\<open>\xb2\<close>, \<^verbatim>\<open>\xb3\<close> and \<^verbatim>\<open>\xb9\<close>), and on a whole string (false
  on the empty string).\<close>

definition isdigit :: "char \<Rightarrow> bool" where
  "isdigit c = (c \<in> set ''0123456789'' \<or> of_char c \<in> set [0xB2, 0xB3, 0xB9 :: nat])"

definition str_isdigit :: "string \<Rightarrow> bool" where
  "str_isdigit s = (s \<noteq> [] \<and> list_all isdigit s)"

text \<open>\<^verbatim>\<open>str.isspace\<close> on one character (tab, line feed, vertical tab, form feed,
  carriage return, the four separators \<^verbatim>\<open>\x1c\<close> to \<^verbatim>\<open>\x1f\<close>, space, next line at
  \<^verbatim>\<open>\x85\<close> and no-break space at \<^verbatim>\<open>\xa0\<close>), and \<^verbatim>\<open>s.strip()\<close>.\<close>

definition isspace :: "char \<Rightarrow> bool" where
  "isspace c =
    (of_char c \<in> set [9, 10, 11, 12, 13, 28, 29, 30, 31, 32, 0x85, 0xA0 :: nat])"

definition strip :: "string \<Rightarrow> string" where
  "strip s = rev (dropWhile isspace (rev (dropWhile isspace s)))"

text \<open>The decimal text of a non-negative \<^verbatim>\<open>int\<close>, as an f-string prints it.\<close>

definition digit_char :: "nat \<Rightarrow> char" where
  "digit_char d = char_of (48 + d)"

function str_of_nat :: "nat \<Rightarrow> string" where
  "str_of_nat n =
    (if n < 10 then [digit_char n] else str_of_nat (n div 10) @ [digit_char (n mod 10)])"
  by pat_completeness auto
termination
  by (relation "measure id") auto

section \<open>Errors\<close>

datatype error =
    ValidationError string
  | NameError string
  | IntegrityError string
  | ValueError string

text \<open>A result that is not an exception.\<close>

definition returns :: "error + 'a \<Rightarrow> bool" where
  "returns r = (case r of Inl _ \<Rightarrow> False | Inr _ \<Rightarrow> True)"

section \<open>accounts/models.py: the data model\<close>

text \<open>
  A row of \<^verbatim>\<open>User\<close>. \<open>pk\<close> is the primary key (\<^verbatim>\<open>id\<close>); \<open>password\<close> stands for the
  stored credential; \<open>employee_id\<close> is \<open>''''\<close> while it is unset (\<^verbatim>\<open>None\<close> and
  \<^verbatim>\<open>''\<close> are both falsy where the code tests it). Timestamps are points of a
  linear clock; \<open>last_login\<close> is the column the class inherits from the framework's
  user.
\<close>

record User =
  pk :: nat
  email :: string
  password :: string
  first_name :: string
  last_name :: string
  national_id :: string
  phone_number :: string
  role :: string
  department :: string
  employee_id :: string
  is_active :: bool
  date_joined :: nat
  last_activity :: nat
  last_login :: "nat option"

text \<open>A row of \<^verbatim>\<open>UserActivityLog\<close>; \<open>user\<close> is the foreign key, \<open>data\<close> the JSON object.\<close>

record UserActivityLog =
  user :: nat
  action :: string
  ip_address :: "string option"
  user_agent :: string
  timestamp :: nat
  data :: "(string \<times> string) list"

text \<open>\<^verbatim>\<open>User.ROLE_CHOICES\<close>: the stored value and its label.\<close>

definition ROLE_CHOICES :: "(string \<times> string) list" where
  "ROLE_CHOICES =
    [(''INITIATOR'', ''Initiator (Dr. Amani - Health Director)''),
     (''CHIEF_OFFICER'', ''Chief Officer - Health (Madam Joy)''),
     (''COUNTY_SECRETARY'', ''County Secretary (Mr. Kiplagat)''),
     (''CPSB_BOARD'', ''CPSB Board Member''),
     (''CPSB_SECRETARIAT'', ''CPSB Secretariat''),
     (''HR_SECRETARIAT'', ''HR Secretariat''),
     (''HR_ADMIN'', ''HR Administrator''),
     (''PANELIST'', ''Interview Panelist''),
     (''PAYROLL_OFFICER'', ''Payroll Officer'')]"

text \<open>\<^verbatim>\<open>User.get_full_name\<close>.\<close>

definition get_full_name :: "User \<Rightarrow> string" where
  "get_full_name u = first_name u @ '' '' @ last_name u"

text \<open>\<^verbatim>\<open>User.get_role_group\<close>: the dictionary \<^verbatim>\<open>role_to_group\<close> and
  \<^verbatim>\<open>role_to_group.get(self.role, 'Applicants')\<close>.\<close>

definition role_to_group :: "(string \<times> string) list" where
  "role_to_group =
    [(''INITIATOR'', ''Initiators''),
     (''CHIEF_OFFICER'', ''Chief Officers''),
     (''COUNTY_SECRETARY'', ''County Secretaries''),
     (''CPSB_BOARD'', ''CPSB Board''),
     (''CPSB_SECRETARIAT'', ''CPSB Secretariat''),
     (''HR_SECRETARIAT'', ''HR Secretariat''),
     (''HR_ADMIN'', ''HR Administrators''),
     (''PANELIST'', ''Panelists''),
     (''PAYROLL_OFFICER'', ''Payroll Officers'')]"

definition get_role_group :: "User \<Rightarrow> string" where
  "get_role_group u =
    (case map_of role_to_group (role u) of
       Some g \<Rightarrow> g
     | None \<Rightarrow> ''Applicants'')"

section \<open>accounts/forms.py: the field checks\<close>

text \<open>
  Each \<^verbatim>\<open>clean_<field>\<close> method reads the field's value from \<^verbatim>\<open>cleaned_data\<close> and
  either raises \<^verbatim>\<open>ValidationError\<close> or returns the value to store. The argument is
  that value; a falsy one (\<^verbatim>\<open>None\<close> or \<^verbatim>\<open>''\<close>) is \<open>''''\<close> here. The forms declare
  these fields required, so the framework hands the method a non-empty string.
\<close>

text \<open>\<^verbatim>\<open>CustomUserCreationForm.clean_email\<close>.\<close>

definition clean_email :: "User list \<Rightarrow> string \<Rightarrow> error + string" where
  "clean_email db e =
    (if e \<noteq> [] \<and> list_ex (\<lambda>u. email u = e) db
     then Inl (ValidationError ''A user with this email already exists.'')
     else Inr e)"

text \<open>\<^verbatim>\<open>CustomUserCreationForm.clean_national_id\<close>.\<close>

definition clean_national_id :: "User list \<Rightarrow> string \<Rightarrow> error + string" where
  "clean_national_id db nid =
    (if nid \<noteq> [] \<and> list_ex (\<lambda>u. national_id u = nid) db
     then Inl (ValidationError ''A user with this National ID already exists.'')
     else if nid \<noteq> [] \<and> \<not> str_isdigit nid
     then Inl (ValidationError ''National ID must contain only digits.'')
     else if nid \<noteq> [] \<and> (length nid < 7 \<or> length nid > 8)
     then Inl (ValidationError ''National ID must be 7 or 8 digits long.'')
     else Inr nid)"

text \<open>\<^verbatim>\<open>CustomUserCreationForm.clean_phone_number\<close>.\<close>

definition clean_phone_number :: "string \<Rightarrow> error + string" where
  "clean_phone_number phone =
    (if phone \<noteq> [] then
       (let phone' = replace_char CHR ''-'' (replace_char CHR '' '' phone) in
        if \<not> (startswith phone' ''+254'' \<or> startswith phone' ''254'' \<or>
                startswith phone' ''07'' \<or> startswith phone' ''01'')
        then Inl (ValidationError
          ''Phone number must be in Kenyan format (e.g., +254712345678, 0712345678)'')
        else
          (let digits_only = filter isdigit phone' in
           if length digits_only < 9 \<or> length digits_only > 12
           then Inl (ValidationError ''Phone number must have between 9 and 12 digits'')
           else Inr phone'))
     else Inr phone)"

text \<open>\<^verbatim>\<open>UserProfileForm.clean_phone_number\<close>.\<close>

definition UserProfileForm_clean_phone_number :: "string \<Rightarrow> error + string" where
  "UserProfileForm_clean_phone_number phone =
    (if phone \<noteq> [] then
       (let phone' = replace_char CHR ''-'' (replace_char CHR '' '' phone) in
        if \<not> (startswith phone' ''+254'' \<or> startswith phone' ''254'' \<or>
                startswith phone' ''07'' \<or> startswith phone' ''01'')
        then Inl (ValidationError ''Phone number must be in Kenyan format'')
        else Inr phone')
     else Inr phone)"

section \<open>A field of a form, from the submitted text to the stored value\<close>

text \<open>
  Validating a form runs, for each field, the field's own cleaning, then the form's
  \<^verbatim>\<open>clean_<field>\<close> method on the cleaned value, and, for a form of a model, the
  validators that \<^verbatim>\<open>accounts/models.py\<close> attaches to the column, on the value that
  is about to be stored. A failure at any stage is the field's error.
\<close>

definition and_then :: "error + 'a \<Rightarrow> ('a \<Rightarrow> error + 'b) \<Rightarrow> error + 'b" where
  "and_then r f = (case r of Inl e \<Rightarrow> Inl e | Inr v \<Rightarrow> f v)"

text \<open>
  A required \<^verbatim>\<open>forms.CharField(max_length=n)\<close>: the submitted text is stripped of
  surrounding whitespace, must not be empty, must not be longer than \<open>n\<close> and must not
  contain the null character.
\<close>

definition CharField_clean :: "nat \<Rightarrow> string \<Rightarrow> error + string" where
  "CharField_clean max_length raw =
    (let v = strip raw in
     if v = [] then Inl (ValidationError ''This field is required.'')
     else if length v > max_length
     then Inl (ValidationError (''Ensure this value has at most '' @ str_of_nat max_length @
       '' characters (it has '' @ str_of_nat (length v) @ '').''))
     else if CHR 0x00 \<in> set v then Inl (ValidationError ''Null characters are not allowed.'')
     else Inr v)"

text \<open>
  In a regular expression \<^verbatim>\<open>$\<close> matches at the end of the text and also just before
  a line feed that ends it: \<open>before_dollar\<close> is the part the rest of the pattern has to
  match. The class \<^verbatim>\<open>\d\<close> is the decimal digits, \<open>0\<close> to \<open>9\<close> on this range of text (the
  superscripts are digits for \<^verbatim>\<open>str.isdigit\<close> but not decimal digits).
\<close>

definition regex_digit :: "char \<Rightarrow> bool" where
  "regex_digit c = (c \<in> set ''0123456789'')"

definition before_dollar :: "string \<Rightarrow> string" where
  "before_dollar v = (if v \<noteq> [] \<and> last v = CHR 0x0A then butlast v else v)"

text \<open>\<^verbatim>\<open>RegexValidator(r'^\d{7,8}$', ...)\<close> of \<^verbatim>\<open>User.national_id\<close>.\<close>

definition national_id_validator :: "string \<Rightarrow> error + string" where
  "national_id_validator v =
    (let body = before_dollar v in
     if list_all regex_digit body \<and> 7 \<le> length body \<and> length body \<le> 8 then Inr v
     else Inl (ValidationError ''Enter a valid National ID (7-8 digits)''))"

text \<open>
  \<^verbatim>\<open>RegexValidator(r'^\+?1?\d{9,15}$', ...)\<close> of \<^verbatim>\<open>User.phone_number\<close>: an optional
  plus sign, an optional \<^verbatim>\<open>1\<close>, then 9 to 15 digits.
\<close>

definition phone_number_validator :: "string \<Rightarrow> error + string" where
  "phone_number_validator v =
    (let body = before_dollar v;
         digits = (if startswith body ''+'' then drop 1 body else body) in
     if list_all regex_digit digits \<and> 9 \<le> length digits \<and>
        (length digits \<le> 15 \<or> (startswith digits ''1'' \<and> length digits \<le> 16))
     then Inr v
     else Inl (ValidationError ''Enter a valid phone number''))"

text \<open>The field \<^verbatim>\<open>national_id\<close> of \<^verbatim>\<open>CustomUserCreationForm\<close>
  (\<^verbatim>\<open>max_length=20\<close>).\<close>

definition CustomUserCreationForm_national_id :: "User list \<Rightarrow> string \<Rightarrow> error + string" where
  "CustomUserCreationForm_national_id db raw =
    and_then (and_then (CharField_clean 20 raw) (clean_national_id db)) national_id_validator"

text \<open>The field \<^verbatim>\<open>phone_number\<close> of \<^verbatim>\<open>CustomUserCreationForm\<close>
  (\<^verbatim>\<open>max_length=15\<close>).\<close>

definition CustomUserCreationForm_phone_number :: "string \<Rightarrow> error + string" where
  "CustomUserCreationForm_phone_number raw =
    and_then (and_then (CharField_clean 15 raw) clean_phone_number) phone_number_validator"

text \<open>The field \<^verbatim>\<open>phone_number\<close> of \<^verbatim>\<open>UserProfileForm\<close> (\<^verbatim>\<open>max_length=15\<close>).\<close>

definition UserProfileForm_phone_number :: "string \<Rightarrow> error + string" where
  "UserProfileForm_phone_number raw =
    and_then (and_then (CharField_clean 15 raw) UserProfileForm_clean_phone_number)
      phone_number_validator"

text \<open>
  The rules as the specification words them, to compare the methods with: a national ID
  is well formed when it consists of decimal digits only and has 7 or 8 of them; a phone
  number is well formed when, once spaces and hyphens are removed, it begins with one of
  the four prefixes and contains 9 to 12 digits.
\<close>

definition spec_national_id_ok :: "string \<Rightarrow> bool" where
  "spec_national_id_ok nid =
    (list_all (\<lambda>c. c \<in> set ''0123456789'') nid \<and> (length nid = 7 \<or> length nid = 8))"

definition spec_strip :: "string \<Rightarrow> string" where
  "spec_strip s = filter (\<lambda>c. c \<noteq> CHR '' '' \<and> c \<noteq> CHR ''-'') s"

definition spec_prefixes :: "string list" where
  "spec_prefixes = [''+254'', ''254'', ''07'', ''01'']"

definition spec_digit_count :: "string \<Rightarrow> nat" where
  "spec_digit_count s = length (filter (\<lambda>c. c \<in> set ''0123456789'') s)"

definition spec_phone_ok :: "string \<Rightarrow> bool" where
  "spec_phone_ok phone =
    (list_ex (\<lambda>p. prefix p (spec_strip phone)) spec_prefixes \<and>
     9 \<le> spec_digit_count (spec_strip phone) \<and> spec_digit_count (spec_strip phone) \<le> 12)"


definition lower :: "string \<Rightarrow> string" where
  "lower s = map (\<lambda>c. if 65 \<le> (of_char c :: nat) \<and> (of_char c :: nat) \<le> 90
                       then char_of ((of_char c :: nat) + 32) else c) s"

text \<open>\<^verbatim>\<open>q in s\<close>: \<open>q\<close> occurs in \<open>s\<close> as a run of consecutive characters.\<close>

fun contains :: "string \<Rightarrow> string \<Rightarrow> bool" where
  "contains [] q = (q = [])"
| "contains (c # cs) q = (prefix q (c # cs) \<or> contains cs q)"

text \<open>The lookup \<^verbatim>\<open>__icontains\<close> of a query set.\<close>

definition icontains :: "string \<Rightarrow> string \<Rightarrow> bool" where
  "icontains field_value q = contains (lower field_value) (lower q)"

section \<open>The store, a request and its outcome\<close>

text \<open>
  The tables the views read and write: the users, the activity log in order of
  insertion, the groups by name, the rows of the many-to-many relation between users
  and groups, and the user bound to the client's session.
\<close>

record state =
  users :: "User list"
  logs :: "UserActivityLog list"
  groups :: "string list"
  user_groups :: "(nat \<times> string) list"
  session :: "nat option"

text \<open>
  An HTTP request as the views see it. \<open>request_user\<close> is \<^verbatim>\<open>request.user\<close>, with \<open>None\<close>
  for the anonymous user; \<open>GET\<close>, \<open>POST\<close> and \<open>META\<close> answer \<^verbatim>\<open>.get(key)\<close>.
\<close>

record request =
  request_method :: string
  request_user :: "User option"
  GET :: "string \<Rightarrow> string option"
  POST :: "string \<Rightarrow> string option"
  META :: "string \<Rightarrow> string option"

text \<open>
  What a request reads from outside the repository: the clock (\<^verbatim>\<open>timezone.now()\<close>, read
  once per request) and its year, the draw of \<^verbatim>\<open>random.randint(1000, 9999)\<close>, and the
  framework's password hasher, its validators of an e-mail address (its form and its
  length), the normal form it gives the address of a user (\<^verbatim>\<open>AbstractUser.clean\<close>), and
  the configured password validators, which see the user the password is for.
\<close>

record env =
  now :: nat
  year :: nat
  randint :: nat
  check_password :: "string \<Rightarrow> string \<Rightarrow> bool"
  make_password :: "string \<Rightarrow> string"
  valid_email :: "string \<Rightarrow> bool"
  normalize_email :: "string \<Rightarrow> string"
  valid_password :: "User \<Rightarrow> string \<Rightarrow> bool"

datatype level = SUCCESS | ERROR

text \<open>
  A response: \<^verbatim>\<open>redirect(name)\<close>, the redirect of \<^verbatim>\<open>login_required\<close> to the configured
  login URL, or \<^verbatim>\<open>render(request, template, context)\<close> with the template and the users
  of its context (empty where the context has none).
\<close>

datatype response =
    Redirect string
  | RedirectToLogin
  | Render string "User list"

text \<open>
  What a view leaves behind: the store, the messages it added, and its response, or
  the exception that escaped it (\<open>Inl\<close>).
\<close>

record outcome =
  st :: state
  messages :: "(level \<times> string) list"
  response :: "error + response"

section \<open>Saving a user\<close>

text \<open>The primary key the database gives a new row.\<close>

definition next_pk :: "User list \<Rightarrow> nat" where
  "next_pk db = Suc (fold max (map pk db) 0)"

text \<open>
  The unique columns of \<^verbatim>\<open>User\<close> (\<^verbatim>\<open>email\<close>, \<^verbatim>\<open>national_id\<close>, \<^verbatim>\<open>employee_id\<close>): a row
  may not repeat the value another row has. A null \<^verbatim>\<open>employee_id\<close> repeats nothing.
\<close>

definition unique_violation :: "User list \<Rightarrow> User \<Rightarrow> bool" where
  "unique_violation db u =
    list_ex (\<lambda>v. (pk u = 0 \<or> pk v \<noteq> pk u) \<and>
               (email v = email u \<or> national_id v = national_id u \<or>
                (employee_id u \<noteq> [] \<and> employee_id v = employee_id u))) db"

text \<open>
  \<^verbatim>\<open>models.Model.save\<close>: an instance with the key of a stored row replaces that row, any
  other is inserted, with a new key when it has none (\<open>pk = 0\<close>). The database raises
  \<^verbatim>\<open>IntegrityError\<close> when a unique column would repeat.
\<close>

definition Model_save :: "User list \<Rightarrow> User \<Rightarrow> error + (User list \<times> User)" where
  "Model_save db u =
    (if unique_violation db u then Inl (IntegrityError ''UNIQUE constraint failed'')
     else if pk u \<noteq> 0 \<and> list_ex (\<lambda>v. pk v = pk u) db
     then Inr (map (\<lambda>v. if pk v = pk u then u else v) db, u)
     else (let u' = (if pk u = 0 then u\<lparr>pk := next_pk db\<rparr> else u)
           in Inr (db @ [u'], u')))"

text \<open>\<^verbatim>\<open>User.save\<close>; \<^verbatim>\<open>last_activity\<close> is \<^verbatim>\<open>auto_now\<close>.\<close>

definition User_save :: "env \<Rightarrow> User list \<Rightarrow> User \<Rightarrow> error + (User list \<times> User)" where
  "User_save e db u =
    (let u1 = (if employee_id u = []
               then u\<lparr>employee_id := ''SAV'' @ str_of_nat (year e) @ str_of_nat (randint e)\<rparr>
               else u)
     in Model_save db (u1\<lparr>last_activity := now e\<rparr>))"

text \<open>\<^verbatim>\<open>UserActivityLog.objects.create(user=..., action=..., ip_address=
  request.META.get('REMOTE_ADDR'), user_agent=request.META.get('HTTP_USER_AGENT', ''),
  data=...)\<close>; \<^verbatim>\<open>timestamp\<close> is \<^verbatim>\<open>auto_now_add\<close>.\<close>

definition UserActivityLog_create ::
  "env \<Rightarrow> request \<Rightarrow> nat \<Rightarrow> string \<Rightarrow> (string \<times> string) list \<Rightarrow> state \<Rightarrow> state" where
  "UserActivityLog_create e request uid act d s =
    s\<lparr>logs := logs s @
      [\<lparr>user = uid, action = act, ip_address = META request ''REMOTE_ADDR'',
        user_agent = (case META request ''HTTP_USER_AGENT'' of None \<Rightarrow> [] | Some a \<Rightarrow> a),
        timestamp = now e, data = d\<rparr>]\<rparr>"

section \<open>core/decorators.py\<close>

text \<open>
  A view takes the store and the request to an outcome. \<^verbatim>\<open>role_required(allowed_roles,
  redirect_url)\<close> wraps a view; \<^verbatim>\<open>redirect_url\<close> defaults to \<^verbatim>\<open>'accounts:login'\<close>.
\<close>

definition role_required ::
  "string list \<Rightarrow> string \<Rightarrow> (state \<Rightarrow> request \<Rightarrow> outcome) \<Rightarrow> state \<Rightarrow> request \<Rightarrow> outcome" where
  "role_required allowed_roles redirect_url view_func s request =
    (case request_user request of
       None \<Rightarrow> \<lparr>st = s, messages = [], response = Inr (Redirect redirect_url)\<rparr>
     | Some u \<Rightarrow>
         if role u \<in> set allowed_roles then view_func s request
         else \<lparr>st = s,
               messages = [(ERROR, ''You do not have permission to access this page.'')],
               response = Inr (Redirect ''core:dashboard'')\<rparr>)"

text \<open>\<^verbatim>\<open>django.contrib.auth.decorators.login_required\<close>.\<close>

definition login_required ::
  "(state \<Rightarrow> request \<Rightarrow> outcome) \<Rightarrow> state \<Rightarrow> request \<Rightarrow> outcome" where
  "login_required view_func s request =
    (case request_user request of
       None \<Rightarrow> \<lparr>st = s, messages = [], response = Inr RedirectToLogin\<rparr>
     | Some u \<Rightarrow> view_func s request)"

section \<open>accounts/views.py\<close>

text \<open>The names the module binds: what it imports and the views it defines.\<close>

definition views_globals :: "string list" where
  "views_globals =
    [''render'', ''redirect'', ''login'', ''logout'', ''authenticate'', ''login_required'',
     ''messages'', ''Group'', ''never_cache'', ''CustomUserCreationForm'',
     ''CustomAuthenticationForm'', ''UserProfileForm'', ''User'', ''UserActivityLog'',
     ''role_required'', ''register_view'', ''login_view'', ''logout_view'', ''profile_view'',
     ''user_management_view'', ''toggle_user_active'']"

text \<open>Evaluating a global name: one the module does not bind raises \<^verbatim>\<open>NameError\<close>.\<close>

definition load_global :: "string \<Rightarrow> error + string" where
  "load_global name = (if name \<in> set views_globals then Inr name else Inl (NameError name))"

text \<open>\<^verbatim>\<open>User.objects.all().order_by('-date_joined')\<close>: the latest first, users who
  joined at the same time in the order of the table.\<close>

definition order_by_date_joined_desc :: "User list \<Rightarrow> User list" where
  "order_by_date_joined_desc db = sort_key (\<lambda>u. - int (date_joined u)) db"

text \<open>The body of \<^verbatim>\<open>user_management_view\<close>.\<close>

definition user_management_view :: "state \<Rightarrow> request \<Rightarrow> outcome" where
  "user_management_view s request =
    (let users0 = order_by_date_joined_desc (users s);
         role_filter = GET request ''role'';
         users1 = (case role_filter of
                     None \<Rightarrow> users0
                   | Some r \<Rightarrow> if r \<noteq> [] then filter (\<lambda>u. role u = r) users0 else users0);
         search = GET request ''search'';
         listing = (\<lambda>us. \<lparr>st = s, messages = [],
                           response = Inr (Render ''accounts/user_management.html'' us)\<rparr>)
     in case search of
          None \<Rightarrow> listing users1
        | Some q \<Rightarrow>
            if q \<noteq> [] then
              (case load_global ''models'' of
                 Inl err \<Rightarrow> \<lparr>st = s, messages = [], response = Inl err\<rparr>
               | Inr m \<Rightarrow>
                   listing (filter (\<lambda>u. icontains (first_name u) q \<or> icontains (last_name u) q \<or>
                                         icontains (email u) q \<or> icontains (national_id u) q)
                              users1))
            else listing users1)"

text \<open>\<^verbatim>\<open>user_management_view\<close> as \<^verbatim>\<open>urls.py\<close> routes it, under its two decorators.\<close>

definition user_management_view_guarded :: "state \<Rightarrow> request \<Rightarrow> outcome" where
  "user_management_view_guarded =
    login_required
      (role_required [''HR_ADMIN'', ''CPSB_SECRETARIAT''] ''accounts:login'' user_management_view)"




section \<open>accounts/forms.py: the login and registration forms\<close>

text \<open>
  The submitted data answer \<^verbatim>\<open>.get(name)\<close>; a field takes the empty text for a name the
  data do not have.
\<close>

definition submitted :: "(string \<Rightarrow> string option) \<Rightarrow> string \<Rightarrow> string" where
  "submitted form_data name = (case form_data name of None \<Rightarrow> [] | Some v \<Rightarrow> v)"

text \<open>A required \<^verbatim>\<open>forms.EmailField()\<close>: stripped, not empty, and accepted by the
  framework's validator of e-mail addresses.\<close>

definition EmailField_clean :: "env \<Rightarrow> string \<Rightarrow> error + string" where
  "EmailField_clean e raw =
    (let v = strip raw in
     if v = [] then Inl (ValidationError ''This field is required.'')
     else if \<not> valid_email e v then Inl (ValidationError ''Enter a valid email address.'')
     else if CHR 0x00 \<in> set v then Inl (ValidationError ''Null characters are not allowed.'')
     else Inr v)"

text \<open>A required \<^verbatim>\<open>forms.CharField()\<close> with no \<^verbatim>\<open>max_length\<close> (the password fields; the
  forms of this repository declare them without \<^verbatim>\<open>strip=False\<close>, so they are stripped).\<close>

definition CharField_clean_unbounded :: "string \<Rightarrow> error + string" where
  "CharField_clean_unbounded raw =
    (let v = strip raw in
     if v = [] then Inl (ValidationError ''This field is required.'')
     else if CHR 0x00 \<in> set v then Inl (ValidationError ''Null characters are not allowed.'')
     else Inr v)"

text \<open>\<^verbatim>\<open>forms.CharField(max_length=n, required=False)\<close>.\<close>

definition CharField_clean_optional :: "nat \<Rightarrow> string \<Rightarrow> error + string" where
  "CharField_clean_optional max_length raw =
    (let v = strip raw in
     if length v > max_length
     then Inl (ValidationError (''Ensure this value has at most '' @ str_of_nat max_length @
       '' characters (it has '' @ str_of_nat (length v) @ '').''))
     else if CHR 0x00 \<in> set v then Inl (ValidationError ''Null characters are not allowed.'')
     else Inr v)"

text \<open>A required \<^verbatim>\<open>forms.ChoiceField(choices=...)\<close>: the submitted text has to be the
  value of one of the choices.\<close>

definition ChoiceField_clean :: "(string \<times> string) list \<Rightarrow> string \<Rightarrow> error + string" where
  "ChoiceField_clean choices raw =
    (if raw = [] then Inl (ValidationError ''This field is required.'')
     else if raw \<notin> set (map fst choices)
     then Inl (ValidationError (''Select a valid choice. '' @ raw @
       '' is not one of the available choices.''))
     else Inr raw)"

text \<open>
  \<^verbatim>\<open>authenticate(request, username=..., password=...)\<close> with the framework's model
  backend: the user whose \<^verbatim>\<open>USERNAME_FIELD\<close> (\<^verbatim>\<open>email\<close>) is the given text, if the
  password checks against the stored credential and the user is active.
\<close>

definition authenticate :: "env \<Rightarrow> User list \<Rightarrow> string \<Rightarrow> string \<Rightarrow> User option" where
  "authenticate e db username raw_password =
    (case find (\<lambda>u. email u = username) db of
       None \<Rightarrow> None
     | Some u \<Rightarrow>
         if check_password e raw_password (password u) \<and> is_active u then Some u else None)"

text \<open>
  \<^verbatim>\<open>CustomAuthenticationForm\<close>: the fields \<^verbatim>\<open>username\<close> and \<^verbatim>\<open>password\<close>, then
  \<^verbatim>\<open>clean\<close>. The result is the first error, or the cleaned \<^verbatim>\<open>username\<close> and
  \<^verbatim>\<open>password\<close> of a valid form (\<^verbatim>\<open>remember_me\<close> is optional and cannot fail).
\<close>

definition CustomAuthenticationForm_clean ::
  "env \<Rightarrow> User list \<Rightarrow> (string \<Rightarrow> string option) \<Rightarrow> error + (string \<times> string)" where
  "CustomAuthenticationForm_clean e db form_data =
    and_then (EmailField_clean e (submitted form_data ''username'')) (\<lambda>email_value.
    and_then (CharField_clean_unbounded (submitted form_data ''password'')) (\<lambda>password_value.
      case authenticate e db email_value password_value of
        None \<Rightarrow> Inl (ValidationError
          (''Please enter a correct email and password. '' @
           ''Note that both fields may be case-sensitive.''))
      | Some user_cache \<Rightarrow>
          if \<not> is_active user_cache
          then Inl (ValidationError
            ''This account is inactive. Please contact the administrator.'')
          else Inr (email_value, password_value)))"

text \<open>
  \<^verbatim>\<open>CustomUserCreationForm\<close>: each field in the order of the form and the comparison
  of the two passwords; then what a form of a model adds: the instance is built from
  the cleaned data (not yet saved: no key, no employee ID, no credential), its address
  is put in normal form, the unique columns the form has (\<^verbatim>\<open>email\<close>, \<^verbatim>\<open>national_id\<close>)
  are checked against the stored rows, and the password validators see the password
  and the instance. The result is the first error, or, for a valid form, the instance
  together with the cleaned \<^verbatim>\<open>password1\<close>. A \<^verbatim>\<open>department\<close> left out of the data keeps
  the column's default.
\<close>

definition CustomUserCreationForm_clean ::
  "env \<Rightarrow> User list \<Rightarrow> (string \<Rightarrow> string option) \<Rightarrow> error + (User \<times> string)" where
  "CustomUserCreationForm_clean e db form_data =
    and_then (and_then (EmailField_clean e (submitted form_data ''email'')) (clean_email db))
      (\<lambda>email_value.
    and_then (CharField_clean 30 (submitted form_data ''first_name'')) (\<lambda>first_name_value.
    and_then (CharField_clean 30 (submitted form_data ''last_name'')) (\<lambda>last_name_value.
    and_then (CustomUserCreationForm_national_id db (submitted form_data ''national_id''))
      (\<lambda>national_id_value.
    and_then (CustomUserCreationForm_phone_number (submitted form_data ''phone_number''))
      (\<lambda>phone_number_value.
    and_then (ChoiceField_clean ROLE_CHOICES (submitted form_data ''role'')) (\<lambda>role_value.
    and_then (CharField_clean_optional 100 (submitted form_data ''department''))
      (\<lambda>department_value.
    and_then (CharField_clean_unbounded (submitted form_data ''password1'')) (\<lambda>password1.
    and_then (CharField_clean_unbounded (submitted form_data ''password2'')) (\<lambda>password2.
      if password1 \<noteq> password2
      then Inl (ValidationError ''The two password fields did not match.'')
      else
        (let inst =
           \<lparr>pk = 0, email = normalize_email e email_value, password = [],
            first_name = first_name_value, last_name = last_name_value,
            national_id = national_id_value, phone_number = phone_number_value,
            role = role_value,
            department = (if form_data ''department'' = None \<and> department_value = []
                          then ''Health'' else department_value),
            employee_id = [], is_active = True, date_joined = now e,
            last_activity = now e, last_login = None\<rparr>
         in if list_ex (\<lambda>u. email u = email inst) db
            then Inl (ValidationError ''User with this Email address already exists.'')
            else if list_ex (\<lambda>u. national_id u = national_id inst) db
            then Inl (ValidationError ''User with this National id already exists.'')
            else if \<not> valid_password e inst password2
            then Inl (ValidationError ''This password is not valid.'')
            else Inr (inst, password1)))))))))))"

text \<open>\<^verbatim>\<open>CustomUserCreationForm.save\<close> with \<^verbatim>\<open>commit=True\<close>: the credential is set from
  \<^verbatim>\<open>password1\<close> and the instance is saved.\<close>

definition CustomUserCreationForm_save ::
  "env \<Rightarrow> User list \<Rightarrow> User \<times> string \<Rightarrow> error + (User list \<times> User)" where
  "CustomUserCreationForm_save e db cleaned =
    User_save e db ((fst cleaned)\<lparr>password := make_password e (snd cleaned)\<rparr>)"

section \<open>accounts/views.py: registration and login\<close>

text \<open>\<^verbatim>\<open>Group.objects.get_or_create(name=group_name)\<close> and \<^verbatim>\<open>user.groups.add(group)\<close>;
  \<open>groups_of\<close> is \<^verbatim>\<open>user.groups.all()\<close>, by name.\<close>

definition Group_get_or_create :: "string \<Rightarrow> state \<Rightarrow> state" where
  "Group_get_or_create group_name s =
    (if group_name \<in> set (groups s) then s else s\<lparr>groups := groups s @ [group_name]\<rparr>)"

definition groups_add :: "nat \<Rightarrow> string \<Rightarrow> state \<Rightarrow> state" where
  "groups_add uid group_name s =
    (if (uid, group_name) \<in> set (user_groups s) then s
     else s\<lparr>user_groups := user_groups s @ [(uid, group_name)]\<rparr>)"

definition groups_of :: "state \<Rightarrow> nat \<Rightarrow> string list" where
  "groups_of s uid = map snd (filter (\<lambda>m. fst m = uid) (user_groups s))"

text \<open>The body of \<^verbatim>\<open>register_view\<close>.\<close>

definition register_view :: "env \<Rightarrow> state \<Rightarrow> request \<Rightarrow> outcome" where
  "register_view e s request =
    (case request_user request of
       Some u \<Rightarrow> \<lparr>st = s, messages = [], response = Inr (Redirect ''core:dashboard'')\<rparr>
     | None \<Rightarrow>
         if request_method request = ''POST'' then
           (case CustomUserCreationForm_clean e (users s) (POST request) of
              Inl err \<Rightarrow>
                \<lparr>st = s, messages = [], response = Inr (Render ''accounts/register.html'' [])\<rparr>
            | Inr cleaned \<Rightarrow>
                (case CustomUserCreationForm_save e (users s) cleaned of
                   Inl err \<Rightarrow> \<lparr>st = s, messages = [], response = Inl err\<rparr>
                 | Inr (db, usr) \<Rightarrow>
                     (let group_name = get_role_group usr;
                          s1 = Group_get_or_create group_name (s\<lparr>users := db\<rparr>);
                          s2 = groups_add (pk usr) group_name s1;
                          s3 = UserActivityLog_create e request (pk usr) ''USER_REGISTERED''
                                 [(''role'', role usr)] s2
                      in \<lparr>st = s3,
                          messages = [(SUCCESS, ''Registration successful! Please login.'')],
                          response = Inr (Redirect ''accounts:login'')\<rparr>)))
         else \<lparr>st = s, messages = [], response = Inr (Render ''accounts/register.html'' [])\<rparr>)"

text \<open>
  \<^verbatim>\<open>login(request, user)\<close>: the user is bound to the session, and the framework's
  handler of the login signal stores the time in the user's \<^verbatim>\<open>last_login\<close>.
\<close>

definition login :: "env \<Rightarrow> User \<Rightarrow> state \<Rightarrow> state" where
  "login e u s =
    s\<lparr>session := Some (pk u),
      users := map (\<lambda>v. if pk v = pk u then v\<lparr>last_login := Some (now e)\<rparr> else v) (users s)\<rparr>"

text \<open>The body of \<^verbatim>\<open>login_view\<close>.\<close>

definition login_view :: "env \<Rightarrow> state \<Rightarrow> request \<Rightarrow> outcome" where
  "login_view e s request =
    (case request_user request of
       Some u \<Rightarrow> \<lparr>st = s, messages = [], response = Inr (Redirect ''core:dashboard'')\<rparr>
     | None \<Rightarrow>
         if request_method request = ''POST'' then
           (case CustomAuthenticationForm_clean e (users s) (POST request) of
              Inl err \<Rightarrow>
                \<lparr>st = s, messages = [(ERROR, ''Invalid email or password.'')],
                 response = Inr (Render ''accounts/login.html'' [])\<rparr>
            | Inr (email_value, password_value) \<Rightarrow>
                (case authenticate e (users s) email_value password_value of
                   None \<Rightarrow>
                     \<lparr>st = s, messages = [],
                      response = Inr (Render ''accounts/login.html'' [])\<rparr>
                 | Some usr \<Rightarrow>
                     \<lparr>st = UserActivityLog_create e request (pk usr) ''USER_LOGIN'' []
                            (login e usr s),
                      messages = [(SUCCESS, ''Welcome back, '' @ get_full_name usr @ ''!'')],
                      response = Inr (Redirect
                        (if role usr = ''INITIATOR'' then ''requisitions:create''
                         else if role usr = ''CHIEF_OFFICER''
                         then ''requisitions:pending_approvals''
                         else if role usr = ''COUNTY_SECRETARY''
                         then ''requisitions:pending_endorsements''
                         else if role usr = ''CPSB_BOARD'' then ''requisitions:board_approvals''
                         else if role usr = ''HR_SECRETARIAT'' then ''candidates:shortlist''
                         else ''core:dashboard''))\<rparr>))
         else \<lparr>st = s, messages = [], response = Inr (Render ''accounts/login.html'' [])\<rparr>)"

text \<open>
  The destinations after login as the specification lists them, by role; any role not
  listed goes to the dashboard.
\<close>

definition spec_login_target :: "string \<Rightarrow> string" where
  "spec_login_target r =
    (case map_of
       [(''INITIATOR'', ''requisitions:create''),
        (''CHIEF_OFFICER'', ''requisitions:pending_approvals''),
        (''COUNTY_SECRETARY'', ''requisitions:pending_endorsements''),
        (''CPSB_BOARD'', ''requisitions:board_approvals''),
        (''HR_SECRETARIAT'', ''candidates:shortlist'')] r of
       Some target \<Rightarrow> target
     | None \<Rightarrow> ''core:dashboard'')"


section \<open>The integrity of the store\<close>

text \<open>
  What the database guarantees of the tables at any time: primary keys are set and
  distinct, the unique columns of \<^verbatim>\<open>User\<close> hold distinct values, and a row of the
  relation between users and groups refers to a stored user; and what \<^verbatim>\<open>User.save\<close>
  guarantees of every row it has written: an employee ID.
\<close>

definition store_ok :: "state \<Rightarrow> bool" where
  "store_ok s =
    (distinct (map pk (users s)) \<and> list_all (\<lambda>u. pk u \<noteq> 0) (users s) \<and>
     distinct (map email (users s)) \<and> distinct (map national_id (users s)) \<and>
     distinct (map employee_id (users s)) \<and> list_all (\<lambda>u. employee_id u \<noteq> []) (users s) \<and>
     list_all (\<lambda>m. fst m \<in> set (map pk (users s))) (user_groups s))"

section \<open>Sample data\<close>

text \<open>A stored user, for the concrete instances of the theorems below.\<close>

definition amina :: User where
  "amina = \<lparr>pk = 1, email = ''amina@savanna.example'', password = ''pw-amina'',
     first_name = ''Amina'', last_name = ''Odhiambo'', national_id = ''1234567'',
     phone_number = ''0712345678'', role = ''HR_ADMIN'', department = ''Health'',
     employee_id = ''SAV20261001'', is_active = True, date_joined = 10,
     last_activity = 10, last_login = None\<rparr>"

definition wanjiru :: User where
  "wanjiru = \<lparr>pk = 2, email = ''wanjiru@savanna.example'', password = ''pw-wanjiru'',
     first_name = ''Wanjiru'', last_name = ''Kamau'', national_id = ''7654321'',
     phone_number = ''0112345678'', role = ''INITIATOR'', department = ''Health'',
     employee_id = ''SAV20262002'', is_active = True, date_joined = 12,
     last_activity = 12, last_login = None\<rparr>"

text \<open>A store with the two users, each in the group of their role.\<close>

definition county :: state where
  "county = \<lparr>users = [amina, wanjiru], logs = [],
     groups = [''HR Administrators'', ''Initiators''],
     user_groups = [(1, ''HR Administrators''), (2, ''Initiators'')], session = None\<rparr>"

text \<open>An environment: the clock at 20 in the year 2026, the draw 4321, and stand-ins
  for the framework's hasher and validators; the normal form of an address has the part
  after the last \<open>@\<close> in lower case.\<close>

definition office :: env where
  "office = \<lparr>now = 20, year = 2026, randint = 4321,
     check_password = (\<lambda>raw stored. stored = ''pw-'' @ raw),
     make_password = (\<lambda>raw. ''pw-'' @ raw),
     valid_email = (\<lambda>a. CHR ''@'' \<in> set a),
     normalize_email = (\<lambda>a. if CHR ''@'' \<in> set a
                            then rev (dropWhile (\<lambda>c. c \<noteq> CHR ''@'') (rev a)) @
                                 lower (rev (takeWhile (\<lambda>c. c \<noteq> CHR ''@'') (rev a)))
                            else a),
     valid_password = (\<lambda>u p. 8 \<le> length p)\<rparr>"



definition search_by :: "User \<Rightarrow> string \<Rightarrow> request" where
  "search_by u q = \<lparr>request_method = ''GET'', request_user = Some u, GET = [''search'' \<mapsto> q],
     POST = Map.empty, META = [''REMOTE_ADDR'' \<mapsto> ''10.0.0.7'']\<rparr>"

text \<open>An anonymous \<^verbatim>\<open>POST\<close> of the login form, and one of the registration form by a new
  chief officer.\<close>

definition login_by :: "string \<Rightarrow> string \<Rightarrow> request" where
  "login_by username_text password_text =
    \<lparr>request_method = ''POST'', request_user = None, GET = Map.empty,
     POST = [''username'' \<mapsto> username_text, ''password'' \<mapsto> password_text],
     META = [''REMOTE_ADDR'' \<mapsto> ''10.0.0.7'']\<rparr>"


definition joy_registers :: request where
  "joy_registers =
    \<lparr>request_method = ''POST'', request_user = None, GET = Map.empty,
     POST = [''email'' \<mapsto> ''joy@savanna.example'', ''first_name'' \<mapsto> ''Joy'',
             ''last_name'' \<mapsto> ''Chebet'', ''national_id'' \<mapsto> ''2345678'',
             ''phone_number'' \<mapsto> ''+254712345678'', ''role'' \<mapsto> ''CHIEF_OFFICER'',
             ''password1'' \<mapsto> ''savanna-2026'', ''password2'' \<mapsto> ''savanna-2026''],
     META = [''REMOTE_ADDR'' \<mapsto> ''10.0.0.7'']\<rparr>"

section \<open>Properties of the field checks\<close>











lemma returns_Inr: "returns r = (\<exists>v. r = Inr v)"
  by (cases r) (simp_all add: returns_def)


lemma and_then_Inr:
  "(and_then r f = Inr v) = (\<exists>w. r = Inr w \<and> f w = Inr v)"
  by (cases r) (simp_all add: and_then_def)

















lemmas field_eval =
  CustomUserCreationForm_phone_number_def UserProfileForm_phone_number_def
  CustomUserCreationForm_national_id_def and_then_def CharField_clean_def strip_def
  isspace_def clean_phone_number_def UserProfileForm_clean_phone_number_def
  clean_national_id_def str_isdigit_def replace_char_def startswith_def isdigit_def
  phone_number_validator_def national_id_validator_def before_dollar_def regex_digit_def

lemmas spec_eval =
  spec_phone_ok_def spec_strip_def spec_prefixes_def spec_digit_count_def
  spec_national_id_ok_def













lemma phone_13_profile:
  "UserProfileForm_phone_number ''0712345678901'' = Inr ''0712345678901''"
  by (simp add: field_eval)

lemma phone_13_register:
  "CustomUserCreationForm_phone_number ''0712345678901'' =
     Inl (ValidationError ''Phone number must have between 9 and 12 digits'')"
  by (simp add: field_eval)

lemma phone_13_spec: "\<not> spec_phone_ok ''0712345678901''"
  by (simp add: spec_eval)

section \<open>Claims about the forms\<close>

text \<open>
  Claim C3, at the input that separates the two forms. The profile form shares the
  prefix test with the registration form but has no digit count of its own: the
  13-digit number \<open>0712345678901\<close> fails the rule of 9 to 12 digits, the registration
  form rejects it for that reason, and the profile form accepts and stores it.
\<close>

theorem profile_phone_number_skips_digit_count:
  "UserProfileForm_phone_number ''0712345678901'' = Inr ''0712345678901'' \<and>
   \<not> spec_phone_ok ''0712345678901'' \<and>
   CustomUserCreationForm_phone_number ''0712345678901'' =
     Inl (ValidationError ''Phone number must have between 9 and 12 digits'')"
  by (simp only: phone_13_profile phone_13_register phone_13_spec simp_thms)







section \<open>Properties of saving\<close>








section \<open>Properties of the guards\<close>

lemma role_required_anonymous:
  "request_user request = None \<Longrightarrow>
   role_required allowed redirect_url view_func s request =
     \<lparr>st = s, messages = [], response = Inr (Redirect redirect_url)\<rparr>"
  by (simp add: role_required_def)

lemma role_required_denied:
  "request_user request = Some u \<Longrightarrow> role u \<notin> set allowed \<Longrightarrow>
   role_required allowed redirect_url view_func s request =
     \<lparr>st = s, messages = [(ERROR, ''You do not have permission to access this page.'')],
      response = Inr (Redirect ''core:dashboard'')\<rparr>"
  by (simp add: role_required_def)

lemma role_required_allowed:
  "request_user request = Some u \<Longrightarrow> role u \<in> set allowed \<Longrightarrow>
   role_required allowed redirect_url view_func s request = view_func s request"
  by (simp add: role_required_def)

lemma login_required_anonymous:
  "request_user request = None \<Longrightarrow>
   login_required view_func s request = \<lparr>st = s, messages = [], response = Inr RedirectToLogin\<rparr>"
  by (simp add: login_required_def)

lemma login_required_user:
  "request_user request = Some u \<Longrightarrow> login_required view_func s request = view_func s request"
  by (simp add: login_required_def)

lemma initiator_not_admin: "''INITIATOR'' \<notin> set [''HR_ADMIN'', ''CPSB_SECRETARIAT'']"
  by simp

section \<open>Properties of the user listing\<close>

lemma load_global_models: "load_global ''models'' = Inl (NameError ''models'')"
  by (simp add: load_global_def views_globals_def)

lemma user_management_view_search:
  assumes "GET request ''search'' = Some q" "q \<noteq> []"
  shows "user_management_view s request =
    \<lparr>st = s, messages = [], response = Inl (NameError ''models'')\<rparr>"
  using assms by (simp add: user_management_view_def Let_def load_global_models)

section \<open>Properties of the activation toggle\<close>






section \<open>Claims about the guards and the guarded views\<close>

text \<open>
  Claim C1, at a search of the user listing by an administrator. The view builds the
  filter from \<^verbatim>\<open>models.Q\<close>, but \<^verbatim>\<open>accounts/views.py\<close> never imports \<^verbatim>\<open>models\<close>: with a
  non-empty \<^verbatim>\<open>search\<close> parameter the view raises \<^verbatim>\<open>NameError\<close> instead of returning the
  matching users.
\<close>

theorem user_management_search_raises:
  "user_management_view_guarded county (search_by amina ''a'') =
     \<lparr>st = county, messages = [], response = Inl (NameError ''models'')\<rparr>"
proof -
  have "user_management_view county (search_by amina ''a'') =
      \<lparr>st = county, messages = [], response = Inl (NameError ''models'')\<rparr>"
    by (rule user_management_view_search [of _ "''a''"]) (simp_all add: search_by_def)
  then show ?thesis
    by (simp add: user_management_view_guarded_def login_required_def role_required_def
        search_by_def amina_def)
qed

text \<open>
  Claim C4. \<^verbatim>\<open>role_required\<close> denies in exactly two ways: a request without a user is
  redirected to \<^verbatim>\<open>redirect_url\<close> (the login page, \<^verbatim>\<open>accounts:login\<close>, on both routes that
  use the guard) with no message; a user whose role is not allowed is redirected to
  \<^verbatim>\<open>core:dashboard\<close> with the notice of missing permission; a user whose role is allowed
  reaches the view. On the user listing, a user with role \<open>INITIATOR\<close> is denied in the
  second way whatever the request carries, and a request without a user is sent to the
  login page by \<^verbatim>\<open>login_required\<close>; the store is left as it was.
\<close>

theorem role_required_two_denials:
  "(request_user request = None \<longrightarrow>
      role_required allowed ''accounts:login'' view_func s request =
        \<lparr>st = s, messages = [], response = Inr (Redirect ''accounts:login'')\<rparr>) \<and>
   (request_user request = Some u \<and> role u \<notin> set allowed \<longrightarrow>
      role_required allowed ''accounts:login'' view_func s request =
        \<lparr>st = s, messages = [(ERROR, ''You do not have permission to access this page.'')],
         response = Inr (Redirect ''core:dashboard'')\<rparr>) \<and>
   (request_user request = Some u \<and> role u \<in> set allowed \<longrightarrow>
      role_required allowed ''accounts:login'' view_func s request = view_func s request) \<and>
   (request_user request = Some u \<and> role u = ''INITIATOR'' \<longrightarrow>
      user_management_view_guarded s request =
        \<lparr>st = s, messages = [(ERROR, ''You do not have permission to access this page.'')],
         response = Inr (Redirect ''core:dashboard'')\<rparr>) \<and>
   (request_user request = None \<longrightarrow>
      user_management_view_guarded s request =
        \<lparr>st = s, messages = [], response = Inr RedirectToLogin\<rparr>)"
proof -
  have initiator: "user_management_view_guarded s request =
        \<lparr>st = s, messages = [(ERROR, ''You do not have permission to access this page.'')],
         response = Inr (Redirect ''core:dashboard'')\<rparr>"
    if "request_user request = Some u" "role u = ''INITIATOR''"
  proof -
    from that(2) initiator_not_admin
    have "role u \<notin> set [''HR_ADMIN'', ''CPSB_SECRETARIAT'']"
      by simp
    from role_required_denied [OF that(1) this] login_required_user [OF that(1)]
    show ?thesis
      by (simp only: user_management_view_guarded_def)
  qed
  have anonymous: "user_management_view_guarded s request =
        \<lparr>st = s, messages = [], response = Inr RedirectToLogin\<rparr>"
    if "request_user request = None"
    using that by (simp only: user_management_view_guarded_def login_required_anonymous)
  from initiator anonymous
    role_required_anonymous [of request allowed "''accounts:login''" view_func s]
    role_required_denied [of request u allowed "''accounts:login''" view_func s]
    role_required_allowed [of request u allowed "''accounts:login''" view_func s]
  show ?thesis
    by blast
qed

theorem role_required_two_denials_witness:
  "request_user (search_by wanjiru ''a'') = Some wanjiru \<and>
   role wanjiru = ''INITIATOR'' \<and> role wanjiru \<notin> set [''HR_ADMIN'', ''CPSB_SECRETARIAT''] \<and>
   user_management_view_guarded county (search_by wanjiru ''a'') =
     \<lparr>st = county, messages = [(ERROR, ''You do not have permission to access this page.'')],
      response = Inr (Redirect ''core:dashboard'')\<rparr> \<and>
   request_user (search_by amina ''a'') = Some amina \<and>
   role amina \<in> set [''HR_ADMIN'', ''CPSB_SECRETARIAT''] \<and>
   role_required [''HR_ADMIN'', ''CPSB_SECRETARIAT''] ''accounts:login'' user_management_view
       county (search_by amina ''a'') =
     user_management_view county (search_by amina ''a'')"
  using role_required_two_denials [of "search_by wanjiru ''a''" "[''HR_ADMIN'', ''CPSB_SECRETARIAT'']"
      user_management_view county wanjiru]
    role_required_two_denials [of "search_by amina ''a''" "[''HR_ADMIN'', ''CPSB_SECRETARIAT'']"
      user_management_view county amina]
  by (simp add: search_by_def wanjiru_def amina_def)





section \<open>Properties of login\<close>

lemma EmailField_clean_Inr:
  "(EmailField_clean e raw = Inr v) =
     (v = strip raw \<and> v \<noteq> [] \<and> valid_email e v \<and> CHR 0x00 \<notin> set v)"
  by (auto simp: EmailField_clean_def Let_def)

lemma CharField_clean_unbounded_Inr:
  "(CharField_clean_unbounded raw = Inr v) =
     (v = strip raw \<and> v \<noteq> [] \<and> CHR 0x00 \<notin> set v)"
  by (auto simp: CharField_clean_unbounded_def Let_def)

lemma authenticate_Some:
  "authenticate e db username raw_password = Some u \<Longrightarrow>
   u \<in> set db \<and> email u = username \<and> check_password e raw_password (password u) \<and>
   is_active u"
  by (auto simp: authenticate_def find_Some_iff split: option.splits if_splits)

lemma CustomAuthenticationForm_clean_Inr:
  "(CustomAuthenticationForm_clean e db form_data = Inr (em, pw)) =
     (em = strip (submitted form_data ''username'') \<and> em \<noteq> [] \<and> valid_email e em \<and>
      CHR 0x00 \<notin> set em \<and>
      pw = strip (submitted form_data ''password'') \<and> pw \<noteq> [] \<and> CHR 0x00 \<notin> set pw \<and>
      authenticate e db em pw \<noteq> None)"
proof (cases "authenticate e db (strip (submitted form_data ''username''))
                (strip (submitted form_data ''password''))")
  case None
  then show ?thesis
    by (auto simp: CustomAuthenticationForm_clean_def and_then_Inr EmailField_clean_Inr
        CharField_clean_unbounded_Inr)
next
  case (Some u)
  from authenticate_Some [OF Some] have "is_active u"
    by simp
  with Some show ?thesis
    by (auto simp: CustomAuthenticationForm_clean_def and_then_Inr EmailField_clean_Inr
        CharField_clean_unbounded_Inr)
qed

lemma login_target:
  "(if r = ''INITIATOR'' then ''requisitions:create''
    else if r = ''CHIEF_OFFICER'' then ''requisitions:pending_approvals''
    else if r = ''COUNTY_SECRETARY'' then ''requisitions:pending_endorsements''
    else if r = ''CPSB_BOARD'' then ''requisitions:board_approvals''
    else if r = ''HR_SECRETARIAT'' then ''candidates:shortlist''
    else ''core:dashboard'') = spec_login_target r"
  by (simp add: spec_login_target_def)

lemma login_view_valid:
  assumes "request_user request = None" and "request_method request = ''POST''"
    and "CustomAuthenticationForm_clean e (users s) (POST request) = Inr (em, pw)"
    and "authenticate e (users s) em pw = Some u"
  shows "login_view e s request =
    \<lparr>st = UserActivityLog_create e request (pk u) ''USER_LOGIN'' [] (login e u s),
     messages = [(SUCCESS, ''Welcome back, '' @ get_full_name u @ ''!'')],
     response = Inr (Redirect (spec_login_target (role u)))\<rparr>"
  using assms by (simp add: login_view_def login_target)

lemma login_view_invalid:
  assumes "request_user request = None" and "request_method request = ''POST''"
    and "CustomAuthenticationForm_clean e (users s) (POST request) = Inl err"
  shows "login_view e s request =
    \<lparr>st = s, messages = [(ERROR, ''Invalid email or password.'')],
     response = Inr (Render ''accounts/login.html'' [])\<rparr>"
  using assms by (simp add: login_view_def)


lemma session_after_login:
  "session (UserActivityLog_create e request uid act d (login e u s)) = Some (pk u)"
  by (simp add: UserActivityLog_create_def login_def)

section \<open>Properties of registration\<close>

lemma fold_max_ge: "(a::nat) \<le> fold max xs a \<and> (\<forall>x\<in>set xs. x \<le> fold max xs a)"
proof (induction xs arbitrary: a)
  case Nil
  show ?case by simp
next
  case (Cons y ys)
  from Cons [of "max y a"] show ?case
    by auto
qed

lemma next_pk_fresh: "v \<in> set db \<Longrightarrow> pk v \<noteq> next_pk db"
  using fold_max_ge [of 0 "map pk db"] by (auto simp: next_pk_def)

lemma Model_save_new:
  assumes "pk u = 0" and "Model_save db u = Inr (db', u')"
  shows "db' = db @ [u'] \<and> u' = u\<lparr>pk := next_pk db\<rparr>"
  using assms by (auto simp: Model_save_def Let_def split: if_splits)

lemma User_save_new:
  assumes "pk u = 0" and "User_save e db u = Inr (db', u')"
  shows "db' = db @ [u'] \<and> pk u' = next_pk db \<and> role u' = role u"
proof -
  let ?u1 = "(if employee_id u = []
              then u\<lparr>employee_id := ''SAV'' @ str_of_nat (year e) @ str_of_nat (randint e)\<rparr>
              else u)\<lparr>last_activity := now e\<rparr>"
  from assms(2) have "Model_save db ?u1 = Inr (db', u')"
    by (simp add: User_save_def Let_def)
  moreover from assms(1) have "pk ?u1 = 0"
    by simp
  ultimately have "db' = db @ [u'] \<and> u' = ?u1\<lparr>pk := next_pk db\<rparr>"
    by (rule Model_save_new [rotated])
  then show ?thesis
    by (cases "employee_id u = []") auto
qed

lemma ChoiceField_clean_Inr:
  "(ChoiceField_clean choices raw = Inr v) = (v = raw \<and> raw \<noteq> [] \<and> raw \<in> set (map fst choices))"
  by (auto simp: ChoiceField_clean_def)

lemma CustomUserCreationForm_clean_Inr:
  assumes "CustomUserCreationForm_clean e db form_data = Inr (inst, p)"
  shows "pk inst = 0 \<and> employee_id inst = [] \<and>
    role inst = submitted form_data ''role'' \<and>
    role inst \<in> set (map fst ROLE_CHOICES) \<and>
    \<not> list_ex (\<lambda>u. email u = email inst) db \<and>
    \<not> list_ex (\<lambda>u. national_id u = national_id inst) db"
proof -
  from assms obtain em fn ln nid ph r d p1 p2 where
    r: "ChoiceField_clean ROLE_CHOICES (submitted form_data ''role'') = Inr r"
    and rest: "(if p1 \<noteq> p2
      then Inl (ValidationError ''The two password fields did not match.'')
      else
        (let inst0 =
           \<lparr>pk = 0, email = normalize_email e em, password = [],
            first_name = fn, last_name = ln,
            national_id = nid, phone_number = ph,
            role = r,
            department = (if form_data ''department'' = None \<and> d = []
                          then ''Health'' else d),
            employee_id = [], is_active = True, date_joined = now e,
            last_activity = now e, last_login = None\<rparr>
         in if list_ex (\<lambda>u. email u = email inst0) db
            then Inl (ValidationError ''User with this Email address already exists.'')
            else if list_ex (\<lambda>u. national_id u = national_id inst0) db
            then Inl (ValidationError ''User with this National id already exists.'')
            else if \<not> valid_password e inst0 p2
            then Inl (ValidationError ''This password is not valid.'')
            else Inr (inst0, p1))) = Inr (inst, p)"
    unfolding CustomUserCreationForm_clean_def and_then_Inr by blast
  define inst0 where "inst0 =
           \<lparr>pk = 0, email = normalize_email e em, password = [],
            first_name = fn, last_name = ln,
            national_id = nid, phone_number = ph,
            role = r,
            department = (if form_data ''department'' = None \<and> d = []
                          then ''Health'' else d),
            employee_id = [], is_active = True, date_joined = now e,
            last_activity = now e, last_login = None\<rparr>"
  have pr: "pk inst0 = 0" "employee_id inst0 = []" "role inst0 = r"
    by (simp_all add: inst0_def)
  from rest have "inst = inst0 \<and> \<not> list_ex (\<lambda>u. email u = email inst0) db \<and>
     \<not> list_ex (\<lambda>u. national_id u = national_id inst0) db"
    unfolding inst0_def [symmetric] Let_def
    by (simp split: if_splits)
  with pr r show ?thesis
    by (simp add: ChoiceField_clean_Inr del: set_map)
qed


lemma register_view_success:
  assumes "response (register_view e s request) = Inr (Redirect ''accounts:login'')"
  obtains cleaned db usr where
    "request_user request = None" and "request_method request = ''POST''" and
    "CustomUserCreationForm_clean e (users s) (POST request) = Inr cleaned" and
    "CustomUserCreationForm_save e (users s) cleaned = Inr (db, usr)" and
    "st (register_view e s request) =
       UserActivityLog_create e request (pk usr) ''USER_REGISTERED'' [(''role'', role usr)]
         (groups_add (pk usr) (get_role_group usr)
           (Group_get_or_create (get_role_group usr) (s\<lparr>users := db\<rparr>)))"
  using assms
  by (auto simp: register_view_def Let_def split: option.splits if_splits sum.splits)

lemma users_after_registration:
  "users (UserActivityLog_create e request uid act d
     (groups_add uid g (Group_get_or_create g (s\<lparr>users := db\<rparr>)))) = db"
  by (simp add: UserActivityLog_create_def groups_add_def Group_get_or_create_def)

lemma groups_after_registration:
  "g \<in> set (groups (UserActivityLog_create e request uid act d
     (groups_add uid g (Group_get_or_create g (s\<lparr>users := db\<rparr>)))))"
  by (simp add: UserActivityLog_create_def groups_add_def Group_get_or_create_def)

lemma groups_of_after_registration:
  assumes "list_all (\<lambda>m. fst m \<noteq> uid) (user_groups s)"
  shows "groups_of (UserActivityLog_create e request uid act d
     (groups_add uid g (Group_get_or_create g (s\<lparr>users := db\<rparr>)))) uid = [g]"
proof -
  from assms have "filter (\<lambda>m. fst m = uid) (user_groups s) = []"
    by (auto simp: filter_empty_conv list_all_iff)
  moreover from assms have "(uid, g) \<notin> set (user_groups s)"
    by (auto simp: list_all_iff)
  ultimately show ?thesis
    by (simp add: groups_of_def UserActivityLog_create_def groups_add_def
        Group_get_or_create_def)
qed

lemma store_ok_no_membership:
  assumes "store_ok s"
  shows "list_all (\<lambda>m. fst m \<noteq> next_pk (users s)) (user_groups s)"
proof -
  have "fst m \<noteq> next_pk (users s)" if "m \<in> set (user_groups s)" for m
  proof -
    from assms that have "fst m \<in> set (map pk (users s))"
      by (simp add: store_ok_def list_all_iff)
    then obtain v where "v \<in> set (users s)" "fst m = pk v"
      by auto
    with next_pk_fresh [of v "users s"] show ?thesis
      by simp
  qed
  then show ?thesis
    by (simp add: list_all_iff)
qed

lemma CustomUserCreationForm_save_new:
  assumes clean: "CustomUserCreationForm_clean e db form_data = Inr cleaned"
    and save: "CustomUserCreationForm_save e db cleaned = Inr (db', usr)"
  shows "db' = db @ [usr] \<and> pk usr = next_pk db \<and> role usr = submitted form_data ''role'' \<and>
    role usr \<in> set (map fst ROLE_CHOICES)"
proof -
  obtain inst p where cleaned: "cleaned = (inst, p)"
    by (cases cleaned)
  note c = CustomUserCreationForm_clean_Inr [OF clean [unfolded cleaned]]
  from c have "pk (inst\<lparr>password := make_password e p\<rparr>) = 0"
    by simp
  from User_save_new [OF this save [unfolded CustomUserCreationForm_save_def cleaned fst_conv snd_conv]]
  have "db' = db @ [usr]" "pk usr = next_pk db" "role usr = role inst"
    by simp_all
  with c show ?thesis
    by (simp del: set_map) metis
qed

lemma User_save_fresh:
  assumes "pk u = 0" and "employee_id u = []"
    and "\<not> list_ex (\<lambda>v. email v = email u) db"
    and "\<not> list_ex (\<lambda>v. national_id v = national_id u) db"
    and "\<not> list_ex (\<lambda>v. employee_id v =
      ''SAV'' @ str_of_nat (year e) @ str_of_nat (randint e)) db"
  shows "returns (User_save e db u)"
proof -
  let ?u = "u\<lparr>employee_id := ''SAV'' @ str_of_nat (year e) @ str_of_nat (randint e),
    last_activity := now e\<rparr>"
  from assms have nv: "\<not> unique_violation db ?u"
    by (auto simp: unique_violation_def list_ex_iff)
  from assms(2) have "User_save e db u = Model_save db ?u"
    by (simp add: User_save_def)
  moreover from assms(1) have "pk ?u = 0"
    by simp
  ultimately show ?thesis
    using nv by (simp add: Model_save_def returns_def Let_def)
qed

lemma register_view_succeeds:
  assumes anon: "request_user request = None" and post: "request_method request = ''POST''"
    and clean: "CustomUserCreationForm_clean e (users s) (POST request) = Inr cleaned"
    and unused: "\<not> list_ex (\<lambda>u. employee_id u =
      ''SAV'' @ str_of_nat (year e) @ str_of_nat (randint e)) (users s)"
  shows "response (register_view e s request) = Inr (Redirect ''accounts:login'')"
proof -
  obtain inst p where cleaned: "cleaned = (inst, p)"
    by (cases cleaned)
  note c = CustomUserCreationForm_clean_Inr [OF clean [unfolded cleaned]]
  have "returns (User_save e (users s) (inst\<lparr>password := make_password e p\<rparr>))"
    by (rule User_save_fresh) (use c unused in simp_all)
  then obtain db usr where
    "CustomUserCreationForm_save e (users s) cleaned = Inr (db, usr)"
    by (auto simp: returns_Inr CustomUserCreationForm_save_def cleaned)
  with anon post clean show ?thesis
    by (simp add: register_view_def Let_def)
qed

lemma get_role_group_default:
  "role u \<notin> set (map fst ROLE_CHOICES) \<Longrightarrow> get_role_group u = ''Applicants''"
  by (simp add: get_role_group_def role_to_group_def ROLE_CHOICES_def)

lemma get_role_group_listed:
  "role u \<in> set (map fst ROLE_CHOICES) \<Longrightarrow>
   map_of role_to_group (role u) = Some (get_role_group u)"
  by (auto simp: get_role_group_def role_to_group_def ROLE_CHOICES_def)

section \<open>Claims about login and registration\<close>

text \<open>
  Claim C7. A login is a \<^verbatim>\<open>POST\<close> of the login form by a client that is not logged in
  yet. The form is valid exactly when the address and the password, both trimmed, are
  not empty and free of null characters, the address passes the framework's validator
  and \<^verbatim>\<open>authenticate\<close> finds an active user for them. When the form is valid the view
  binds that user to the session, greets them and redirects to the destination the
  specification lists for the user's role, whatever else the request or the store
  holds; when it is not, the view leaves the store as it was, adds the one message
  \<open>Invalid email or password.\<close> and renders the login page again.
\<close>

theorem login_view_redirect_by_role:
  assumes "request_user request = None" and "request_method request = ''POST''"
  shows
  "(CustomAuthenticationForm_clean e (users s) (POST request) = Inr (em, pw) \<and>
    authenticate e (users s) em pw = Some u \<longrightarrow>
      response (login_view e s request) = Inr (Redirect (spec_login_target (role u))) \<and>
      session (st (login_view e s request)) = Some (pk u) \<and>
      messages (login_view e s request) =
        [(SUCCESS, ''Welcome back, '' @ get_full_name u @ ''!'')]) \<and>
   (CustomAuthenticationForm_clean e (users s) (POST request) = Inr (em, pw) \<longrightarrow>
      authenticate e (users s) em pw \<noteq> None) \<and>
   (CustomAuthenticationForm_clean e (users s) (POST request) = Inl err \<longrightarrow>
      login_view e s request =
        \<lparr>st = s, messages = [(ERROR, ''Invalid email or password.'')],
         response = Inr (Render ''accounts/login.html'' [])\<rparr>) \<and>
   returns (CustomAuthenticationForm_clean e (users s) (POST request)) =
     (strip (submitted (POST request) ''username'') \<noteq> [] \<and>
      valid_email e (strip (submitted (POST request) ''username'')) \<and>
      CHR 0x00 \<notin> set (strip (submitted (POST request) ''username'')) \<and>
      strip (submitted (POST request) ''password'') \<noteq> [] \<and>
      CHR 0x00 \<notin> set (strip (submitted (POST request) ''password'')) \<and>
      authenticate e (users s) (strip (submitted (POST request) ''username''))
        (strip (submitted (POST request) ''password'')) \<noteq> None) \<and>
   spec_login_target ''INITIATOR'' = ''requisitions:create'' \<and>
   spec_login_target ''CHIEF_OFFICER'' = ''requisitions:pending_approvals'' \<and>
   spec_login_target ''COUNTY_SECRETARY'' = ''requisitions:pending_endorsements'' \<and>
   spec_login_target ''CPSB_BOARD'' = ''requisitions:board_approvals'' \<and>
   spec_login_target ''HR_SECRETARIAT'' = ''candidates:shortlist'' \<and>
   (r \<notin> set [''INITIATOR'', ''CHIEF_OFFICER'', ''COUNTY_SECRETARY'', ''CPSB_BOARD'',
              ''HR_SECRETARIAT''] \<longrightarrow> spec_login_target r = ''core:dashboard'')"
proof -
  have valid: "response (login_view e s request) = Inr (Redirect (spec_login_target (role u))) \<and>
      session (st (login_view e s request)) = Some (pk u) \<and>
      messages (login_view e s request) =
        [(SUCCESS, ''Welcome back, '' @ get_full_name u @ ''!'')]"
    if "CustomAuthenticationForm_clean e (users s) (POST request) = Inr (em, pw)"
      and "authenticate e (users s) em pw = Some u"
    unfolding login_view_valid [OF assms that] by (simp add: session_after_login)
  have found: "authenticate e (users s) em pw \<noteq> None"
    if "CustomAuthenticationForm_clean e (users s) (POST request) = Inr (em, pw)"
    using that by (auto simp: CustomAuthenticationForm_clean_Inr)
  have form: "returns (CustomAuthenticationForm_clean e (users s) (POST request)) =
     (strip (submitted (POST request) ''username'') \<noteq> [] \<and>
      valid_email e (strip (submitted (POST request) ''username'')) \<and>
      CHR 0x00 \<notin> set (strip (submitted (POST request) ''username'')) \<and>
      strip (submitted (POST request) ''password'') \<noteq> [] \<and>
      CHR 0x00 \<notin> set (strip (submitted (POST request) ''password'')) \<and>
      authenticate e (users s) (strip (submitted (POST request) ''username''))
        (strip (submitted (POST request) ''password'')) \<noteq> None)"
    by (simp add: returns_Inr CustomAuthenticationForm_clean_Inr)
  have targets: "spec_login_target ''INITIATOR'' = ''requisitions:create''"
    "spec_login_target ''CHIEF_OFFICER'' = ''requisitions:pending_approvals''"
    "spec_login_target ''COUNTY_SECRETARY'' = ''requisitions:pending_endorsements''"
    "spec_login_target ''CPSB_BOARD'' = ''requisitions:board_approvals''"
    "spec_login_target ''HR_SECRETARIAT'' = ''candidates:shortlist''"
    by (simp_all add: spec_login_target_def)
  have other: "spec_login_target r = ''core:dashboard''"
    if "r \<notin> set [''INITIATOR'', ''CHIEF_OFFICER'', ''COUNTY_SECRETARY'', ''CPSB_BOARD'',
              ''HR_SECRETARIAT'']"
    using that by (simp add: spec_login_target_def)
  from valid found form targets other login_view_invalid [OF assms, of e s err]
  show ?thesis
    by blast
qed

theorem login_view_redirect_by_role_witness:
  "request_user (login_by ''wanjiru@savanna.example'' '' wanjiru '') = None \<and>
   request_method (login_by ''wanjiru@savanna.example'' '' wanjiru '') = ''POST'' \<and>
   CustomAuthenticationForm_clean office (users county)
     (POST (login_by ''wanjiru@savanna.example'' '' wanjiru '')) =
     Inr (''wanjiru@savanna.example'', ''wanjiru'') \<and>
   authenticate office (users county) ''wanjiru@savanna.example'' ''wanjiru'' = Some wanjiru \<and>
   response (login_view office county (login_by ''wanjiru@savanna.example'' '' wanjiru '')) =
     Inr (Redirect (spec_login_target (role wanjiru))) \<and>
   spec_login_target (role wanjiru) = ''requisitions:create'' \<and>
   CustomAuthenticationForm_clean office (users county)
     (POST (login_by ''wanjiru@savanna.example'' ''amina'')) =
     Inl (ValidationError (''Please enter a correct email and password. '' @
       ''Note that both fields may be case-sensitive.'')) \<and>
   login_view office county (login_by ''wanjiru@savanna.example'' ''amina'') =
     \<lparr>st = county, messages = [(ERROR, ''Invalid email or password.'')],
      response = Inr (Render ''accounts/login.html'' [])\<rparr>"
proof -
  have a: "request_user (login_by ''wanjiru@savanna.example'' '' wanjiru '') = None"
    "request_method (login_by ''wanjiru@savanna.example'' '' wanjiru '') = ''POST''"
    "request_user (login_by ''wanjiru@savanna.example'' ''amina'') = None"
    "request_method (login_by ''wanjiru@savanna.example'' ''amina'') = ''POST''"
    by (simp_all add: login_by_def)
  have c: "CustomAuthenticationForm_clean office (users county)
     (POST (login_by ''wanjiru@savanna.example'' '' wanjiru '')) =
     Inr (''wanjiru@savanna.example'', ''wanjiru'')"
    by code_simp
  have f: "authenticate office (users county) ''wanjiru@savanna.example'' ''wanjiru'' =
     Some wanjiru"
    by code_simp
  have t: "spec_login_target (role wanjiru) = ''requisitions:create''"
    by code_simp
  have d: "CustomAuthenticationForm_clean office (users county)
     (POST (login_by ''wanjiru@savanna.example'' ''amina'')) =
     Inl (ValidationError (''Please enter a correct email and password. '' @
       ''Note that both fields may be case-sensitive.''))"
    by code_simp
  from login_view_redirect_by_role [OF a(1,2), of office county
      "''wanjiru@savanna.example''" "''wanjiru''" wanjiru] c f
  have ok: "response (login_view office county
      (login_by ''wanjiru@savanna.example'' '' wanjiru '')) =
     Inr (Redirect (spec_login_target (role wanjiru)))"
    by blast
  from login_view_redirect_by_role [OF a(3,4), of office county _ _ _
      "ValidationError (''Please enter a correct email and password. '' @
         ''Note that both fields may be case-sensitive.'')"] d
  have bad: "login_view office county (login_by ''wanjiru@savanna.example'' ''amina'') =
     \<lparr>st = county, messages = [(ERROR, ''Invalid email or password.'')],
      response = Inr (Render ''accounts/login.html'' [])\<rparr>"
    by blast
  from a c f t d ok bad show ?thesis
    by blast
qed



text \<open>
  Claim C9. \<^verbatim>\<open>get_role_group\<close> maps each of the nine roles of \<^verbatim>\<open>ROLE_CHOICES\<close> to its
  group, and any other role to \<open>Applicants\<close>. A registration that succeeds (the view
  redirects to the login page), in a store that meets its integrity constraints,
  stores one new user, whose role is the role submitted and is one of the nine, creates
  the group of that role if it is not there, and leaves the new user a member of that
  group and of no other. A registration succeeds when the form is valid and the
  employee ID that \<^verbatim>\<open>User.save\<close> draws is not in use.
\<close>

theorem registration_group:
  "map fst role_to_group = map fst ROLE_CHOICES \<and>
   get_role_group (u\<lparr>role := ''INITIATOR''\<rparr>) = ''Initiators'' \<and>
   get_role_group (u\<lparr>role := ''CHIEF_OFFICER''\<rparr>) = ''Chief Officers'' \<and>
   get_role_group (u\<lparr>role := ''COUNTY_SECRETARY''\<rparr>) = ''County Secretaries'' \<and>
   get_role_group (u\<lparr>role := ''CPSB_BOARD''\<rparr>) = ''CPSB Board'' \<and>
   get_role_group (u\<lparr>role := ''CPSB_SECRETARIAT''\<rparr>) = ''CPSB Secretariat'' \<and>
   get_role_group (u\<lparr>role := ''HR_SECRETARIAT''\<rparr>) = ''HR Secretariat'' \<and>
   get_role_group (u\<lparr>role := ''HR_ADMIN''\<rparr>) = ''HR Administrators'' \<and>
   get_role_group (u\<lparr>role := ''PANELIST''\<rparr>) = ''Panelists'' \<and>
   get_role_group (u\<lparr>role := ''PAYROLL_OFFICER''\<rparr>) = ''Payroll Officers'' \<and>
   (role u \<notin> set (map fst ROLE_CHOICES) \<longrightarrow> get_role_group u = ''Applicants'') \<and>
   (store_ok s \<and> response (register_view e s request) = Inr (Redirect ''accounts:login'') \<longrightarrow>
      users (st (register_view e s request)) =
        users s @ [last (users (st (register_view e s request)))] \<and>
      pk (last (users (st (register_view e s request)))) \<notin> set (map pk (users s)) \<and>
      role (last (users (st (register_view e s request)))) =
        submitted (POST request) ''role'' \<and>
      map_of role_to_group (role (last (users (st (register_view e s request))))) =
        Some (get_role_group (last (users (st (register_view e s request))))) \<and>
      groups_of (st (register_view e s request))
          (pk (last (users (st (register_view e s request))))) =
        [get_role_group (last (users (st (register_view e s request))))] \<and>
      get_role_group (last (users (st (register_view e s request)))) \<in>
        set (groups (st (register_view e s request)))) \<and>
   (request_user request = None \<and> request_method request = ''POST'' \<and>
    returns (CustomUserCreationForm_clean e (users s) (POST request)) \<and>
    \<not> list_ex (\<lambda>v. employee_id v = ''SAV'' @ str_of_nat (year e) @ str_of_nat (randint e))
        (users s) \<longrightarrow>
      response (register_view e s request) = Inr (Redirect ''accounts:login''))"
proof -
  have table: "map fst role_to_group = map fst ROLE_CHOICES"
    by (simp add: role_to_group_def ROLE_CHOICES_def)
  have each: "get_role_group (u\<lparr>role := ''INITIATOR''\<rparr>) = ''Initiators''"
    "get_role_group (u\<lparr>role := ''CHIEF_OFFICER''\<rparr>) = ''Chief Officers''"
    "get_role_group (u\<lparr>role := ''COUNTY_SECRETARY''\<rparr>) = ''County Secretaries''"
    "get_role_group (u\<lparr>role := ''CPSB_BOARD''\<rparr>) = ''CPSB Board''"
    "get_role_group (u\<lparr>role := ''CPSB_SECRETARIAT''\<rparr>) = ''CPSB Secretariat''"
    "get_role_group (u\<lparr>role := ''HR_SECRETARIAT''\<rparr>) = ''HR Secretariat''"
    "get_role_group (u\<lparr>role := ''HR_ADMIN''\<rparr>) = ''HR Administrators''"
    "get_role_group (u\<lparr>role := ''PANELIST''\<rparr>) = ''Panelists''"
    "get_role_group (u\<lparr>role := ''PAYROLL_OFFICER''\<rparr>) = ''Payroll Officers''"
    by (simp_all add: get_role_group_def role_to_group_def)
  have placed: "users (st (register_view e s request)) =
        users s @ [last (users (st (register_view e s request)))] \<and>
      pk (last (users (st (register_view e s request)))) \<notin> set (map pk (users s)) \<and>
      role (last (users (st (register_view e s request)))) =
        submitted (POST request) ''role'' \<and>
      map_of role_to_group (role (last (users (st (register_view e s request))))) =
        Some (get_role_group (last (users (st (register_view e s request))))) \<and>
      groups_of (st (register_view e s request))
          (pk (last (users (st (register_view e s request))))) =
        [get_role_group (last (users (st (register_view e s request))))] \<and>
      get_role_group (last (users (st (register_view e s request)))) \<in>
        set (groups (st (register_view e s request)))"
    if ok: "store_ok s"
      and redirected: "response (register_view e s request) = Inr (Redirect ''accounts:login'')"
  proof -
    from redirected obtain cleaned db usr where
      clean: "CustomUserCreationForm_clean e (users s) (POST request) = Inr cleaned" and
      save: "CustomUserCreationForm_save e (users s) cleaned = Inr (db, usr)" and
      st: "st (register_view e s request) =
        UserActivityLog_create e request (pk usr) ''USER_REGISTERED'' [(''role'', role usr)]
          (groups_add (pk usr) (get_role_group usr)
            (Group_get_or_create (get_role_group usr) (s\<lparr>users := db\<rparr>)))"
      by (rule register_view_success)
    from CustomUserCreationForm_save_new [OF clean save]
    have new: "db = users s @ [usr]" "pk usr = next_pk (users s)"
      "role usr = submitted (POST request) ''role''" "role usr \<in> set (map fst ROLE_CHOICES)"
      by blast+
    have users: "users (st (register_view e s request)) = users s @ [usr]"
      unfolding st users_after_registration by (rule new(1))
    then have last: "last (users (st (register_view e s request))) = usr"
      by simp
    have fresh: "pk usr \<notin> set (map pk (users s))"
    proof
      assume "pk usr \<in> set (map pk (users s))"
      then obtain v where "v \<in> set (users s)" "pk v = pk usr"
        by auto
      with next_pk_fresh [of v "users s"] new(2) show False
        by simp
    qed
    from store_ok_no_membership [OF ok] new(2)
    have "list_all (\<lambda>m. fst m \<noteq> pk usr) (user_groups s)"
      by simp
    then have member: "groups_of (st (register_view e s request)) (pk usr) =
        [get_role_group usr]"
      unfolding st by (rule groups_of_after_registration)
    have group: "get_role_group usr \<in> set (groups (st (register_view e s request)))"
      unfolding st by (rule groups_after_registration)
    from users fresh new(3) get_role_group_listed [OF new(4)] member group show ?thesis
      unfolding last by simp
  qed
  have succeeds: "response (register_view e s request) = Inr (Redirect ''accounts:login'')"
    if "request_user request = None" "request_method request = ''POST''"
      "returns (CustomUserCreationForm_clean e (users s) (POST request))"
      "\<not> list_ex (\<lambda>v. employee_id v = ''SAV'' @ str_of_nat (year e) @ str_of_nat (randint e))
        (users s)"
    using that register_view_succeeds [of request e s]
    by (auto simp: returns_Inr)
  from table each get_role_group_default [of u] placed succeeds show ?thesis
    by blast
qed

theorem registration_group_witness:
  "role amina \<in> set (map fst ROLE_CHOICES) \<and>
   role (amina\<lparr>role := ''APPLICANT''\<rparr>) \<notin> set (map fst ROLE_CHOICES) \<and>
   get_role_group (amina\<lparr>role := ''APPLICANT''\<rparr>) = ''Applicants'' \<and>
   store_ok county \<and>
   request_user joy_registers = None \<and> request_method joy_registers = ''POST'' \<and>
   returns (CustomUserCreationForm_clean office (users county) (POST joy_registers)) \<and>
   \<not> list_ex (\<lambda>v. employee_id v =
        ''SAV'' @ str_of_nat (year office) @ str_of_nat (randint office)) (users county) \<and>
   response (register_view office county joy_registers) = Inr (Redirect ''accounts:login'') \<and>
   role (last (users (st (register_view office county joy_registers)))) = ''CHIEF_OFFICER'' \<and>
   groups_of (st (register_view office county joy_registers))
       (pk (last (users (st (register_view office county joy_registers))))) =
     [''Chief Officers'']"
proof -
  have h: "role amina \<in> set (map fst ROLE_CHOICES)"
    "role (amina\<lparr>role := ''APPLICANT''\<rparr>) \<notin> set (map fst ROLE_CHOICES)"
    by (simp_all add: amina_def ROLE_CHOICES_def)
  have ok: "store_ok county"
    by (simp add: store_ok_def county_def amina_def wanjiru_def)
  have r: "request_user joy_registers = None" "request_method joy_registers = ''POST''"
    by (simp_all add: joy_registers_def)
  have v: "returns (CustomUserCreationForm_clean office (users county) (POST joy_registers))"
    by code_simp
  have f: "\<not> list_ex (\<lambda>v. employee_id v =
        ''SAV'' @ str_of_nat (year office) @ str_of_nat (randint office)) (users county)"
    by code_simp
  have sub: "submitted (POST joy_registers) ''role'' = ''CHIEF_OFFICER''"
    by (simp add: joy_registers_def submitted_def)
  note t = registration_group [of "amina\<lparr>role := ''APPLICANT''\<rparr>" county office joy_registers]
  from t h(2) have app: "get_role_group (amina\<lparr>role := ''APPLICANT''\<rparr>) = ''Applicants''"
    by blast
  from t r v f have redirected: "response (register_view office county joy_registers) =
      Inr (Redirect ''accounts:login'')"
    by blast
  from t ok redirected
  have role: "role (last (users (st (register_view office county joy_registers)))) =
      submitted (POST joy_registers) ''role''"
    and member: "groups_of (st (register_view office county joy_registers))
       (pk (last (users (st (register_view office county joy_registers))))) =
     [get_role_group (last (users (st (register_view office county joy_registers))))]"
    by blast+
  from role sub have "get_role_group (last (users (st (register_view office county
      joy_registers)))) = ''Chief Officers''"
    by (simp add: get_role_group_def role_to_group_def)
  with h ok r v f app redirected role sub member show ?thesis
    by simp
qed

end
